theory Spec2Isabelle
  imports Main "HOL-Library.Word"
begin

section \<open>Package eth: logs, receipts, function selectors, untrusted bytes\<close>

text \<open>
  Shallow embedding of \<^verbatim>\<open>src/core/eth/types.go\<close>. The file holds two Go packages:
  package \<^verbatim>\<open>eth\<close> (lines 1-275) and package \<^verbatim>\<open>offchainreporting\<close> (from line 276).

  Fixed-size Go arrays are words: \<^verbatim>\<open>common.Hash\<close> is \<^verbatim>\<open>[32]byte\<close>,
  \<^verbatim>\<open>common.Address\<close> is \<^verbatim>\<open>[20]byte\<close>. Go's \<^verbatim>\<open>uint\<close> and \<^verbatim>\<open>int\<close> are taken
  at their 64-bit width. A runtime panic is a value of type \<open>panic\<close>, an \<^verbatim>\<open>error\<close>
  return is a value of type \<open>error\<close>.
\<close>

type_synonym byte = "8 word"
type_synonym hash = "256 word"
type_synonym address = "160 word"

datatype panic = IndexOutOfRange | SliceBoundsOutOfRange

text \<open>
  \<^verbatim>\<open>ethereum.FilterQuery\<close> of go-ethereum, as \<^verbatim>\<open>ConfigFromLogs\<close> fills it:
  \<^verbatim>\<open>FromBlock\<close> and \<^verbatim>\<open>ToBlock\<close> are \<^verbatim>\<open>*big.Int\<close>, unbounded integers.
\<close>

record FilterQuery =
  FromBlock :: int
  ToBlock :: int
  Addresses :: "address list"
  Topics :: "hash list list"

text \<open>
  \<^verbatim>\<open>type Log struct\<close> (lines 30-55). The two slice-typed fields are type parameters:
  at \<open>Log_val\<close> a slice is the list of its elements (a nil slice and an empty one are
  both \<open>[]\<close>, as \<^verbatim>\<open>len\<close> and \<^verbatim>\<open>range\<close> see them); the instance with slice headers
  into a store is used for \<^verbatim>\<open>Copy\<close> below, where aliasing matters.
\<close>

record ('ts, 'bs) Log =
  Address :: address
  Topics :: 'ts
  Data :: 'bs
  BlockNumber :: "64 word"
  TxHash :: hash
  TxIndex :: "64 word"
  BlockHash :: hash
  Index :: "64 word"
  Removed :: bool

type_synonym Log_val = "(hash list, byte list) Log"

text \<open>\<^verbatim>\<open>driver.Value\<close>: the dynamic types a database driver hands to \<^verbatim>\<open>Scan\<close>.\<close>

datatype driver_Value =
  VNil
| VInt64 "64 word"
| VFloat64 "64 word"
| VBool bool
| VBytes "byte list"
| VString string
| VTime int

text \<open>The error values the source constructs, one constructor for each message.\<close>

datatype error =
  ErrGetTopic "64 word" Log_val
    \<comment> \<open>\<^verbatim>\<open>"Log: Unable to get topic #%v for %v"\<close>\<close>
| ErrNotHex string
    \<comment> \<open>\<^verbatim>\<open>"function selector %s must be 0x-hex encoded"\<close>\<close>
| ErrFunctionIDLength
    \<comment> \<open>\<^verbatim>\<open>"Function ID must be 4 bytes in length"\<close>\<close>
| ErrScanType driver_Value
    \<comment> \<open>\<^verbatim>\<open>"unable to convent %v of type %T to FunctionSelector"\<close>\<close>
| ErrScanLength "byte list" nat nat
    \<comment> \<open>\<^verbatim>\<open>"function selector %v should have length %d, but has length %d"\<close>\<close>
| ErrOutOfBounds
    \<comment> \<open>\<^verbatim>\<open>"out of bounds slice access"\<close>\<close>
| ErrNoLogs address
    \<comment> \<open>\<^verbatim>\<open>"ConfigFromLogs: OCRContract with address 0x%x has no logs"\<close>\<close>
| ErrAddressMismatch address address
    \<comment> \<open>\<^verbatim>\<open>"log address of 0x%x does not match configured contract address of 0x%x"\<close>\<close>
| ErrWrap error string
    \<comment> \<open>\<^verbatim>\<open>errors.Wrap(err, msg)\<close>\<close>
| ErrExternal string
    \<comment> \<open>an error value handed in by a collaborator\<close>

subsection \<open>Log.GetTopic (lines 58-64)\<close>

text \<open>
  \<^verbatim>\<open>if len(log.Topics) <= int(idx) { return common.Hash{}, fmt.Errorf(...) }\<close>
  \<^verbatim>\<open>return log.Topics[idx], nil\<close>

  \<^verbatim>\<open>int(idx)\<close> reinterprets the 64 bits of the unsigned index as a signed value
  (\<open>sint\<close>); the index expression \<^verbatim>\<open>log.Topics[idx]\<close> uses the unsigned value and
  panics when it is not below the length.
\<close>

definition GetTopic :: "Log_val \<Rightarrow> 64 word \<Rightarrow> panic + (hash \<times> error option)" where
  "GetTopic log idx =
     (if int (length (Topics log)) \<le> sint idx then Inr (0, Some (ErrGetTopic idx log))
      else if unat idx < length (Topics log) then Inr (Topics log ! unat idx, None)
      else Inl IndexOutOfRange)"

subsection \<open>TxReceipt and FulfilledRunLog (lines 151-177)\<close>

record TxReceipt =
  BlockNumber :: "int option"
  BlockHash :: "hash option"
  Hash :: hash
  Logs :: "Log_val list"

definition emptyHash :: hash where
  "emptyHash = 0"

definition Unconfirmed :: "TxReceipt \<Rightarrow> bool" where
  "Unconfirmed txr \<longleftrightarrow> Hash txr = emptyHash \<or> TxReceipt.BlockNumber txr = None"

text \<open>
  \<^verbatim>\<open>for _, log := range txr.Logs { if log.Topics[0] == ChainlinkFulfilledTopic { return true } }\<close>
  \<^verbatim>\<open>return false\<close>

  The loop is a recursion over the logs. \<^verbatim>\<open>log.Topics[0]\<close> is an unguarded index
  expression: on a log without topics it panics. \<^verbatim>\<open>ChainlinkFulfilledTopic\<close> is a
  Keccak-256 digest computed at start-up; it is a parameter here.
\<close>

fun FulfilledRunLog_range :: "hash \<Rightarrow> Log_val list \<Rightarrow> panic + bool" where
  "FulfilledRunLog_range ChainlinkFulfilledTopic [] = Inr False"
| "FulfilledRunLog_range ChainlinkFulfilledTopic (log # logs) =
     (case Topics log of
        [] \<Rightarrow> Inl IndexOutOfRange
      | topic0 # _ \<Rightarrow>
          if topic0 = ChainlinkFulfilledTopic then Inr True
          else FulfilledRunLog_range ChainlinkFulfilledTopic logs)"

definition FulfilledRunLog :: "hash \<Rightarrow> TxReceipt \<Rightarrow> panic + bool" where
  "FulfilledRunLog ChainlinkFulfilledTopic txr =
     FulfilledRunLog_range ChainlinkFulfilledTopic (Logs txr)"

subsection \<open>FunctionSelector (lines 179-265)\<close>

text \<open>\<^verbatim>\<open>type FunctionSelector [FunctionSelectorLength]byte\<close>: an array of exactly four bytes.\<close>

datatype FunctionSelector = Sel byte byte byte byte

definition FunctionSelectorLength :: nat where
  "FunctionSelectorLength = 4"

text \<open>
  A byte slice as the selector code sees it: the elements of the backing array from the
  slice's first element up to its capacity, and the length. \<^verbatim>\<open>cap(b)\<close> is the length
  of \<open>backing b\<close>, the elements of \<^verbatim>\<open>b\<close> are the first \<open>slen b\<close> of them.
\<close>

record ByteSlice =
  backing :: "byte list"
  slen :: nat

definition cap :: "ByteSlice \<Rightarrow> nat" where
  "cap b = length (backing b)"

definition elems :: "ByteSlice \<Rightarrow> byte list" where
  "elems b = take (slen b) (backing b)"

text \<open>The slice expression \<^verbatim>\<open>b[lo:hi]\<close>: legal up to the capacity, a panic beyond.\<close>

definition reslice :: "ByteSlice \<Rightarrow> nat \<Rightarrow> nat \<Rightarrow> panic + ByteSlice" where
  "reslice b lo hi =
     (if lo \<le> hi \<and> hi \<le> cap b then Inr \<lparr>backing = drop lo (backing b), slen = hi - lo\<rparr>
      else Inl SliceBoundsOutOfRange)"

text \<open>\<^verbatim>\<open>f[:]\<close> and \<^verbatim>\<open>copy(f[:], src)\<close>: the first \<^verbatim>\<open>min(4, len(src))\<close> bytes are overwritten.\<close>

fun Bytes :: "FunctionSelector \<Rightarrow> byte list" where
  "Bytes (Sel a b c d) = [a, b, c, d]"

fun copy_to_selector :: "FunctionSelector \<Rightarrow> byte list \<Rightarrow> FunctionSelector" where
  "copy_to_selector (Sel a b c d) [] = Sel a b c d"
| "copy_to_selector (Sel a b c d) [w] = Sel w b c d"
| "copy_to_selector (Sel a b c d) [w, x] = Sel w x c d"
| "copy_to_selector (Sel a b c d) [w, x, y] = Sel w x y d"
| "copy_to_selector (Sel a b c d) (w # x # y # z # rest) = Sel w x y z"

text \<open>
  \<^verbatim>\<open>func (f *FunctionSelector) SetBytes(b []byte) { copy(f[:], b[:FunctionSelectorLength]) }\<close>
  Pointer receiver: the result is the new value of \<^verbatim>\<open>*f\<close>.
\<close>

definition SetBytes :: "FunctionSelector \<Rightarrow> ByteSlice \<Rightarrow> panic + FunctionSelector" where
  "SetBytes f b =
     (case reslice b 0 FunctionSelectorLength of
        Inl p \<Rightarrow> Inl p
      | Inr b4 \<Rightarrow> Inr (copy_to_selector f (elems b4)))"

text \<open>\<^verbatim>\<open>var f FunctionSelector; f.SetBytes(b); return f\<close>\<close>

definition BytesToFunctionSelector :: "ByteSlice \<Rightarrow> panic + FunctionSelector" where
  "BytesToFunctionSelector b = SetBytes (Sel 0 0 0 0) b"

text \<open>
  \<^verbatim>\<open>return BytesToFunctionSelector(common.FromHex(s))\<close>; \<^verbatim>\<open>common.FromHex\<close>
  belongs to go-ethereum and is a parameter.
\<close>

definition HexToFunctionSelector :: "(string \<Rightarrow> ByteSlice) \<Rightarrow> string \<Rightarrow> panic + FunctionSelector" where
  "HexToFunctionSelector FromHex s = BytesToFunctionSelector (FromHex s)"

text \<open>\<^verbatim>\<open>regexp.MustCompile("^[0-9a-fA-F]*$")\<close>\<close>

definition hexRegexp_Match :: "string \<Rightarrow> bool" where
  "hexRegexp_Match bs \<longleftrightarrow> list_all (\<lambda>c. c \<in> set ''0123456789abcdefABCDEF'') bs"

text \<open>The functions of other packages that \<^verbatim>\<open>unmarshalFromString\<close> calls.\<close>

record SelectorDeps =
  HasHexPrefix :: "string \<Rightarrow> bool"
  FromHex :: "string \<Rightarrow> ByteSlice"
  Keccak256 :: "string \<Rightarrow> ByteSlice \<times> error option"

text \<open>
  \<^verbatim>\<open>unmarshalFromString(s, f)\<close> (lines 212-230). The result is the new value of
  \<^verbatim>\<open>*f\<close> with the returned error. \<^verbatim>\<open>[]byte(s)[2:]\<close> and \<^verbatim>\<open>bytes[0:4]\<close> are slice
  expressions and panic out of range.
\<close>

definition unmarshalFromString ::
  "SelectorDeps \<Rightarrow> string \<Rightarrow> FunctionSelector \<Rightarrow> panic + (FunctionSelector \<times> error option)" where
  "unmarshalFromString deps s f =
     (if HasHexPrefix deps s then
        (if length s < 2 then Inl SliceBoundsOutOfRange
         else if \<not> hexRegexp_Match (drop 2 s) then Inr (f, Some (ErrNotHex s))
         else
           (let bytes = FromHex deps s in
            if slen bytes \<noteq> FunctionSelectorLength then Inr (f, Some ErrFunctionIDLength)
            else (case SetBytes f bytes of Inl p \<Rightarrow> Inl p | Inr f' \<Rightarrow> Inr (f', None))))
      else
        (case Keccak256 deps s of
           (bytes, Some err) \<Rightarrow> Inr (f, Some err)
         | (bytes, None) \<Rightarrow>
             (case reslice bytes 0 4 of
                Inl p \<Rightarrow> Inl p
              | Inr b4 \<Rightarrow>
                  (case SetBytes f b4 of Inl p \<Rightarrow> Inl p | Inr f' \<Rightarrow> Inr (f', None)))))"

text \<open>\<^verbatim>\<open>func (f FunctionSelector) Value() (driver.Value, error) { return f.Bytes(), nil }\<close>\<close>

definition Value :: "FunctionSelector \<Rightarrow> driver_Value \<times> error option" where
  "Value f = (VBytes (Bytes f), None)"

text \<open>
  \<^verbatim>\<open>func (f FunctionSelector) Scan(value interface{}) error\<close> (lines 254-265).
  \<open>Scan_body\<close> runs the body on the method's variable \<^verbatim>\<open>f\<close> and gives its final
  value with the returned error.
\<close>

definition Scan_body :: "FunctionSelector \<Rightarrow> driver_Value \<Rightarrow> FunctionSelector \<times> error option" where
  "Scan_body f val =
     (case val of
        VBytes temp \<Rightarrow>
          if length temp \<noteq> FunctionSelectorLength
          then (f, Some (ErrScanLength temp FunctionSelectorLength (length temp)))
          else (copy_to_selector f temp, None)
      | _ \<Rightarrow> (f, Some (ErrScanType val)))"

text \<open>
  The receiver of \<^verbatim>\<open>Scan\<close> is declared by value (\<^verbatim>\<open>f FunctionSelector\<close>, not
  \<^verbatim>\<open>f *FunctionSelector\<close> as for \<^verbatim>\<open>SetBytes\<close> and \<^verbatim>\<open>UnmarshalJSON\<close>), and a
  Go array is a value: the body works on a copy of the caller's selector. A call
  \<^verbatim>\<open>err := x.Scan(v)\<close> therefore leaves the caller with its own \<^verbatim>\<open>x\<close> and the error.
  The first component is the caller's selector after the call.
\<close>

definition Scan :: "FunctionSelector \<Rightarrow> driver_Value \<Rightarrow> FunctionSelector \<times> error option" where
  "Scan x val = (x, snd (Scan_body x val))"

subsection \<open>UntrustedBytes.SafeByteSlice (lines 269-275)\<close>

text \<open>
  \<^verbatim>\<open>if end > len(ary) || start > end || start < 0 || end < 0 {\<close>
  \<^verbatim>\<open>    var empty []byte; return empty, errors.New("out of bounds slice access") }\<close>
  \<^verbatim>\<open>return ary[start:end], nil\<close>

  Both return values are kept. The bounds are Go \<^verbatim>\<open>int\<close>s; they are only compared,
  never added, so \<open>int\<close> models them without loss.
\<close>

type_synonym UntrustedBytes = "byte list"

definition SafeByteSlice :: "UntrustedBytes \<Rightarrow> int \<Rightarrow> int \<Rightarrow> byte list \<times> error option" where
  "SafeByteSlice ary start stop =
     (if stop > int (length ary) \<or> start > stop \<or> start < 0 \<or> stop < 0
      then ([], Some ErrOutOfBounds)
      else (drop (nat start) (take (nat stop) ary), None))"

subsection \<open>Log.Copy (lines 71-89)\<close>

text \<open>
  \<^verbatim>\<open>Copy\<close> is about storage, so here a slice is what Go makes of it: a header that
  points into a backing array. A store holds the backing arrays under their addresses;
  \<open>fresh\<close> is the next address the allocator hands out. A slice header is nil, or
  names an array, the offset of the slice's first element in it, and the length.
\<close>

type_synonym addr = nat

datatype slice = NilSlice | Slice addr nat nat

record 'a store =
  arrays :: "addr \<Rightarrow> 'a list option"
  fresh :: addr

type_synonym Log_ref = "(slice, slice) Log"

text \<open>The allocator has not handed out the addresses from \<open>fresh\<close> on.\<close>

definition store_ok :: "'a store \<Rightarrow> bool" where
  "store_ok s \<longleftrightarrow> (\<forall>a. fresh s \<le> a \<longrightarrow> arrays s a = None)"

text \<open>A slice header is valid in a store when its range lies inside an allocated array.\<close>

fun valid_slice :: "'a store \<Rightarrow> slice \<Rightarrow> bool" where
  "valid_slice s NilSlice = True"
| "valid_slice s (Slice a off n) =
     (case arrays s a of None \<Rightarrow> False | Some xs \<Rightarrow> off + n \<le> length xs)"

text \<open>\<^verbatim>\<open>len(x)\<close>\<close>

fun slice_len :: "slice \<Rightarrow> nat" where
  "slice_len NilSlice = 0"
| "slice_len (Slice a off n) = n"

text \<open>The elements \<^verbatim>\<open>x[0], ..., x[len(x)-1]\<close> of a slice in a store.\<close>

fun contents :: "'a store \<Rightarrow> slice \<Rightarrow> 'a list" where
  "contents s NilSlice = []"
| "contents s (Slice a off n) =
     (case arrays s a of None \<Rightarrow> [] | Some xs \<Rightarrow> take n (drop off xs))"

text \<open>\<^verbatim>\<open>make([]T, n)\<close>: a new array of \<open>n\<close> zero values \<open>z\<close> and a slice over all of it.\<close>

definition make_slice :: "'a \<Rightarrow> nat \<Rightarrow> 'a store \<Rightarrow> slice \<times> 'a store" where
  "make_slice z n s =
     (Slice (fresh s) 0 n,
      s\<lparr>arrays := (arrays s)(fresh s := Some (replicate n z)), fresh := Suc (fresh s)\<rparr>)"

text \<open>
  The builtin \<^verbatim>\<open>copy(dst, src)\<close>: the first \<^verbatim>\<open>min(len(dst), len(src))\<close> elements
  of \<^verbatim>\<open>src\<close> are written to the front of \<^verbatim>\<open>dst\<close>.
\<close>

fun copy_builtin :: "slice \<Rightarrow> slice \<Rightarrow> 'a store \<Rightarrow> 'a store" where
  "copy_builtin NilSlice src s = s"
| "copy_builtin (Slice a off n) src s =
     (case arrays s a of
        None \<Rightarrow> s
      | Some xs \<Rightarrow>
          (let ys = take n (contents s src)
           in s\<lparr>arrays := (arrays s)(a := Some (take off xs @ ys @ drop (off + length ys) xs))\<rparr>))"

text \<open>The assignment \<^verbatim>\<open>x[i] = v\<close>: a panic when \<open>i\<close> is not below the length.\<close>

fun set_elem :: "slice \<Rightarrow> nat \<Rightarrow> 'a \<Rightarrow> 'a store \<Rightarrow> panic + 'a store" where
  "set_elem NilSlice i v s = Inl IndexOutOfRange"
| "set_elem (Slice a off n) i v s =
     (if i < n then
        (case arrays s a of
           None \<Rightarrow> Inl IndexOutOfRange
         | Some xs \<Rightarrow> Inr (s\<lparr>arrays := (arrays s)(a := Some (xs[off + i := v]))\<rparr>))
      else Inl IndexOutOfRange)"

text \<open>
  The pattern \<^verbatim>\<open>Copy\<close> runs on \<^verbatim>\<open>Topics\<close> and on \<^verbatim>\<open>Data\<close>:
  \<^verbatim>\<open>if x != nil { cpy.x = make([]T, len(x)); copy(cpy.x, x) }\<close>;
  otherwise \<^verbatim>\<open>cpy.x\<close> keeps the nil of \<^verbatim>\<open>var cpy Log\<close>.
\<close>

definition Copy_field :: "'a \<Rightarrow> slice \<Rightarrow> 'a store \<Rightarrow> slice \<times> 'a store" where
  "Copy_field z x s =
     (if x \<noteq> NilSlice then
        (case make_slice z (slice_len x) s of (c, s') \<Rightarrow> (c, copy_builtin c x s'))
      else (NilSlice, s))"

text \<open>Topic arrays and byte arrays live in separate stores: Go's types keep them apart.\<close>

record Heap =
  topic_store :: "hash store"
  data_store :: "byte store"

definition Copy :: "Heap \<Rightarrow> Log_ref \<Rightarrow> Log_ref \<times> Heap" where
  "Copy h log =
     (case Copy_field 0 (Topics log) (topic_store h) of (cpyTopics, ts) \<Rightarrow>
      case Copy_field 0 (Data log) (data_store h) of (cpyData, ds) \<Rightarrow>
        (\<lparr>Address = Address log, Topics = cpyTopics, Data = cpyData,
          BlockNumber = Log.BlockNumber log, TxHash = TxHash log, TxIndex = TxIndex log,
          BlockHash = Log.BlockHash log, Index = Index log, Removed = Removed log\<rparr>,
         \<lparr>topic_store = ts, data_store = ds\<rparr>))"

text \<open>What a log with slice headers denotes in a heap: the log with the slices' elements.\<close>

definition view :: "Heap \<Rightarrow> Log_ref \<Rightarrow> Log_val" where
  "view h log =
     \<lparr>Address = Address log, Topics = contents (topic_store h) (Topics log),
      Data = contents (data_store h) (Data log),
      BlockNumber = Log.BlockNumber log, TxHash = TxHash log, TxIndex = TxIndex log,
      BlockHash = Log.BlockHash log, Index = Index log, Removed = Removed log\<rparr>"

text \<open>
  Two slices share no storage in a store when no assignment through one of them
  changes the elements of the other.
\<close>

definition independent :: "'a store \<Rightarrow> slice \<Rightarrow> slice \<Rightarrow> bool" where
  "independent s x y \<longleftrightarrow>
     (\<forall>i v s'. set_elem x i v s = Inr s' \<longrightarrow> contents s' y = contents s y) \<and>
     (\<forall>i v s'. set_elem y i v s = Inr s' \<longrightarrow> contents s' x = contents s x)"

section \<open>Package offchainreporting: the contract tracker\<close>

text \<open>
  Lines 276-606. Logs in this package are go-ethereum's \<^verbatim>\<open>types.Log\<close>, the struct
  that \<^verbatim>\<open>eth.Log\<close> copies; they are \<open>Log_val\<close> here.
\<close>

subsection \<open>Types of the collaborators\<close>

text \<open>
  \<^verbatim>\<open>offchainaggregator.OffchainAggregatorRoundRequested\<close>: the source reads and
  copies \<^verbatim>\<open>ConfigDigest\<close>, \<^verbatim>\<open>Epoch\<close> (\<^verbatim>\<open>uint32\<close>) and \<^verbatim>\<open>Round\<close> (\<^verbatim>\<open>uint8\<close>).
\<close>

record RoundRequested =
  Requester :: address
  ConfigDigest :: "128 word"
  Epoch :: "32 word"
  Round :: "8 word"
  Raw :: Log_val

text \<open>
  \<^verbatim>\<open>offchainaggregator.OffchainAggregatorConfigSet\<close>: the decoded event fields (opaque
  to the tracker, type \<open>'p\<close>) and the \<^verbatim>\<open>Raw\<close> log, which the tracker overwrites.
\<close>

record 'p ConfigSet =
  Decoded :: 'p
  Raw :: Log_val

text \<open>\<^verbatim>\<open>contractFilterer\<close>: the two decoding methods the tracker calls.\<close>

record 'p Filterer =
  ParseConfigSet :: "Log_val \<Rightarrow> error + 'p ConfigSet"
  ParseRoundRequested :: "Log_val \<Rightarrow> error + RoundRequested"

text \<open>
  \<^verbatim>\<open>log.Broadcast\<close>: an interface value. Its three methods are answered by the
  broadcaster: \<open>RawLog\<close> is the log, \<open>WasAlreadyConsumed\<close> the pair
  \<^verbatim>\<open>(bool, error)\<close> it returns, \<open>MarkConsumed\<close> the error it returns.
\<close>

record Broadcast =
  RawLog :: Log_val
  WasAlreadyConsumed :: "bool \<times> error option"
  MarkConsumed :: "error option"

text \<open>What the tracker writes to its logger, one constructor for each call site.\<close>

datatype LogEntry =
  Errorw_previous_listener error
    \<comment> \<open>\<^verbatim>\<open>"OCRContract: error in previous LogListener"\<close>\<close>
| Errorw_consumed_unknown error
    \<comment> \<open>\<^verbatim>\<open>"OCRContract: could not determine if log was already consumed"\<close>\<close>
| Errorf_address_mismatch address address
    \<comment> \<open>\<^verbatim>\<open>"log address of 0x%x does not match configured contract address of 0x%x"\<close>\<close>
| Errorw_parse_config_set error
    \<comment> \<open>\<^verbatim>\<open>"could not parse config set"\<close>\<close>
| Errorw_parse_round_requested error
    \<comment> \<open>\<^verbatim>\<open>"could not parse round requested"\<close>\<close>
| Warn_out_of_date RoundRequested RoundRequested
    \<comment> \<open>\<^verbatim>\<open>"OCRContractTracker: ignoring out of date RoundRequested event"\<close>\<close>
| Errorw_mark_consumed error
    \<comment> \<open>\<^verbatim>\<open>"OCRContract: could not mark log consumed"\<close>\<close>

text \<open>
  The calls the tracker makes on its collaborators, recorded in order in the field
  \<open>calls\<close> of the tracker: they are the effects of \<^verbatim>\<open>HandleLog\<close> and
  \<^verbatim>\<open>ConfigFromLogs\<close> outside the tracker's own fields.
\<close>

datatype Call =
  WasAlreadyConsumed_call
| ParseConfigSet_call Log_val
| ParseRoundRequested_call Log_val
| MarkConsumed_call
| FilterLogs_call FilterQuery

subsection \<open>Mailbox\<close>

text \<open>
  Modelled from the spec: \<^verbatim>\<open>utils.Mailbox\<close> (its \<^verbatim>\<open>NewMailbox\<close> and
  \<^verbatim>\<open>Deliver\<close>) is not under src/. Section 4.3: "deliver(item) enqueues up to the
  configured capacity (oldest-eviction policy under sustained overflow [...]) and raises
  an edge-triggered notification". The queue is kept oldest first.
\<close>

record 'a Mailbox =
  queue :: "'a list"
  capacity :: nat
  notified :: bool

definition NewMailbox :: "nat \<Rightarrow> 'a Mailbox" where
  "NewMailbox n = \<lparr>queue = [], capacity = n, notified = False\<rparr>"

definition Deliver :: "'a \<Rightarrow> 'a Mailbox \<Rightarrow> 'a Mailbox" where
  "Deliver x m =
     (let q = queue m @ [x]
      in m\<lparr>queue := (if length q > capacity m then tl q else q), notified := True\<rparr>)"

subsection \<open>The tracker\<close>

definition configMailboxSanityLimit :: nat where
  "configMailboxSanityLimit = 100"

text \<open>
  Package-level values fixed at start-up: the two event topics (\<^verbatim>\<open>getEventTopic\<close>
  reads them from the contract's ABI) and libocr's projection
  \<^verbatim>\<open>confighelper.ContractConfigFromConfigSetEvent\<close>; \<open>'cc\<close> is
  \<^verbatim>\<open>ocrtypes.ContractConfig\<close>.
\<close>

record ('p, 'cc) Globals =
  OCRContractConfigSet :: hash
  OCRContractLatestRoundRequested :: hash
  ContractConfigFromConfigSetEvent :: "'p ConfigSet \<Rightarrow> 'cc"

text \<open>
  \<^verbatim>\<open>OCRContractTracker\<close> (lines 319-341). \<open>ethClient\<close> is the client's
  \<^verbatim>\<open>FilterLogs\<close>; \<open>logger\<close> is what has been logged so far. The start/stop
  guard, the wait group, the channels and the mutex serve the forwarding goroutine
  and are left out: \<^verbatim>\<open>HandleLog\<close> and \<^verbatim>\<open>ConfigFromLogs\<close> are modelled as run by
  one caller at a time.
\<close>

record ('p, 'cc) OCRContractTracker =
  ethClient :: "FilterQuery \<Rightarrow> error + Log_val list"
  contractFilterer :: "'p Filterer"
  contractAddress :: address
  jobID :: "32 word"
  logger :: "LogEntry list"
  latestRoundRequested :: RoundRequested
  configsMB :: "'cc Mailbox"
  calls :: "Call list"

definition zero_Log :: Log_val where
  "zero_Log = \<lparr>Address = 0, Topics = [], Data = [], BlockNumber = 0, TxHash = 0,
     TxIndex = 0, BlockHash = 0, Index = 0, Removed = False\<rparr>"

definition zero_RoundRequested :: RoundRequested where
  "zero_RoundRequested =
     \<lparr>Requester = 0, ConfigDigest = 0, Epoch = 0, Round = 0, Raw = zero_Log\<rparr>"

text \<open>\<^verbatim>\<open>NewOCRContractTracker\<close> (lines 345-370).\<close>

definition NewOCRContractTracker ::
  "address \<Rightarrow> 'p Filterer \<Rightarrow> (FilterQuery \<Rightarrow> error + Log_val list) \<Rightarrow> 32 word
     \<Rightarrow> ('p, 'cc) OCRContractTracker" where
  "NewOCRContractTracker addr filterer client job =
     \<lparr>ethClient = client, contractFilterer = filterer, contractAddress = addr,
      jobID = job, logger = [], latestRoundRequested = zero_RoundRequested,
      configsMB = NewMailbox configMailboxSanityLimit, calls = []\<rparr>"

definition logged :: "LogEntry \<Rightarrow> ('p, 'cc) OCRContractTracker \<Rightarrow> ('p, 'cc) OCRContractTracker" where
  "logged e t = t\<lparr>logger := logger t @ [e]\<rparr>"

definition called :: "Call \<Rightarrow> ('p, 'cc) OCRContractTracker \<Rightarrow> ('p, 'cc) OCRContractTracker" where
  "called c t = t\<lparr>calls := calls t @ [c]\<rparr>"

subsection \<open>HandleLog (lines 431-497)\<close>

text \<open>
  The statements after the \<^verbatim>\<open>switch\<close> (lines 491-496):
  \<^verbatim>\<open>err = lb.MarkConsumed(); if err != nil { t.logger.Errorw(...); return }\<close>
\<close>

definition HandleLog_markConsumed ::
  "Broadcast \<Rightarrow> ('p, 'cc) OCRContractTracker \<Rightarrow> ('p, 'cc) OCRContractTracker" where
  "HandleLog_markConsumed lb t =
     (let t' = called MarkConsumed_call t
      in case MarkConsumed lb of
           Some err \<Rightarrow> logged (Errorw_mark_consumed err) t'
         | None \<Rightarrow> t')"

text \<open>
  The \<^verbatim>\<open>case OCRContractLatestRoundRequested\<close> branch after decoding (lines 481-487):
  \<^verbatim>\<open>if rr.Round >= t.latestRoundRequested.Round && rr.Epoch >= t.latestRoundRequested.Epoch\<close>
  \<^verbatim>\<open>{ t.latestRoundRequested = *rr } else { t.logger.Warn(...) }\<close>
  Both comparisons are unsigned.
\<close>

definition HandleLog_roundRequested ::
  "RoundRequested \<Rightarrow> ('p, 'cc) OCRContractTracker \<Rightarrow> ('p, 'cc) OCRContractTracker" where
  "HandleLog_roundRequested rr t =
     (if Round rr \<ge> Round (latestRoundRequested t) \<and> Epoch rr \<ge> Epoch (latestRoundRequested t)
      then t\<lparr>latestRoundRequested := rr\<rparr>
      else logged (Warn_out_of_date (latestRoundRequested t) rr) t)"

text \<open>
  \<^verbatim>\<open>HandleLog(lb, err)\<close>: the tracker before the call to the tracker after it. Every
  \<^verbatim>\<open>return\<close> of the source is a branch that ends without \<open>HandleLog_markConsumed\<close>;
  the branches of the \<^verbatim>\<open>switch\<close> that run to their end continue with it. The
  \<^verbatim>\<open>switch\<close> compares \<^verbatim>\<open>topics[0]\<close> with the cases in their order.
\<close>

definition HandleLog ::
  "('p, 'cc) Globals \<Rightarrow> Broadcast \<Rightarrow> error option \<Rightarrow> ('p, 'cc) OCRContractTracker
     \<Rightarrow> ('p, 'cc) OCRContractTracker" where
  "HandleLog g lb err t =
     (case err of
        Some e \<Rightarrow> logged (Errorw_previous_listener e) t
      | None \<Rightarrow>
          (let t1 = called WasAlreadyConsumed_call t
           in case WasAlreadyConsumed lb of
                (was, Some e) \<Rightarrow> logged (Errorw_consumed_unknown e) t1
              | (True, None) \<Rightarrow> t1
              | (False, None) \<Rightarrow>
                  (case Topics (RawLog lb) of
                     [] \<Rightarrow> t1
                   | topic0 # _ \<Rightarrow>
                       if topic0 = OCRContractConfigSet g then
                         (let raw = RawLog lb
                          in if Address raw \<noteq> contractAddress t1
                             then logged (Errorf_address_mismatch (Address raw) (contractAddress t1)) t1
                             else
                               (let t2 = called (ParseConfigSet_call raw) t1
                                in case ParseConfigSet (contractFilterer t2) raw of
                                     Inl e \<Rightarrow> logged (Errorw_parse_config_set e) t2
                                   | Inr configSet \<Rightarrow>
                                       (let configSet' = configSet\<lparr>Raw := RawLog lb\<rparr>;
                                            cc = ContractConfigFromConfigSetEvent g configSet'
                                        in HandleLog_markConsumed lb
                                             (t2\<lparr>configsMB := Deliver cc (configsMB t2)\<rparr>))))
                       else if topic0 = OCRContractLatestRoundRequested g then
                         (let raw = RawLog lb
                          in if Address raw \<noteq> contractAddress t1
                             then logged (Errorf_address_mismatch (Address raw) (contractAddress t1)) t1
                             else
                               (let t2 = called (ParseRoundRequested_call raw) t1
                                in case ParseRoundRequested (contractFilterer t2) raw of
                                     Inl e \<Rightarrow> logged (Errorw_parse_round_requested e) t2
                                   | Inr rr \<Rightarrow>
                                       HandleLog_markConsumed lb (HandleLog_roundRequested rr t2)))
                       else HandleLog_markConsumed lb t1)))"

subsection \<open>ConfigFromLogs (lines 534-561)\<close>

text \<open>
  The result is the tracker (its \<open>calls\<close> extended) and the returned pair
  \<^verbatim>\<open>(c, err)\<close> as a sum: on every error path the source returns the zero-valued
  \<^verbatim>\<open>c\<close> beside the error. \<^verbatim>\<open>big.NewInt(int64(changedInBlock))\<close> converts the
  \<^verbatim>\<open>uint64\<close> to \<^verbatim>\<open>int64\<close> first: the same 64 bits read as a signed value.
\<close>

definition ConfigFromLogs ::
  "('p, 'cc) Globals \<Rightarrow> ('p, 'cc) OCRContractTracker \<Rightarrow> 64 word
     \<Rightarrow> ('p, 'cc) OCRContractTracker \<times> (error + 'cc)" where
  "ConfigFromLogs g t changedInBlock =
     (let q = \<lparr>FromBlock = sint changedInBlock,
               ToBlock = sint changedInBlock,
               Addresses = [contractAddress t],
               FilterQuery.Topics = [[OCRContractConfigSet g]]\<rparr>;
          t1 = called (FilterLogs_call q) t
      in case ethClient t q of
           Inl err \<Rightarrow> (t1, Inl err)
         | Inr logs \<Rightarrow>
             if length logs = 0 then (t1, Inl (ErrNoLogs (contractAddress t)))
             else
               (let t2 = called (ParseConfigSet_call (last logs)) t1
                in case ParseConfigSet (contractFilterer t) (last logs) of
                     Inl err \<Rightarrow> (t2, Inl (ErrWrap err ''ConfigFromLogs failed to ParseConfigSet''))
                   | Inr latest \<Rightarrow>
                       (let latest' = latest\<lparr>Raw := last logs\<rparr>
                        in if Address (Raw latest') \<noteq> contractAddress t
                           then (t2, Inl (ErrAddressMismatch (Address (Raw latest')) (contractAddress t)))
                           else (t2, Inr (ContractConfigFromConfigSetEvent g latest')))))"

section \<open>Sample values\<close>

text \<open>
  Concrete collaborators and inputs, on which the properties below are evaluated. The
  sample decoders stand for the contract bindings: \<open>ParseConfigSet\<close> accepts a log with
  a payload, \<open>ParseRoundRequested\<close> reads epoch and round from a payload of two bytes.
  Neither looks at the \<^verbatim>\<open>Removed\<close> flag, as the generated bindings do not. The
  tracked contract has address 7, the two event topics are 1 and 2.
\<close>

definition sample_filterer :: "unit Filterer" where
  "sample_filterer =
     \<lparr>ParseConfigSet = (\<lambda>log. if Data log = [] then Inl (ErrExternal ''no data'')
                               else Inr \<lparr>Decoded = (), Raw = log\<rparr>),
      ParseRoundRequested = (\<lambda>log. case Data log of
                                [e, r] \<Rightarrow> Inr \<lparr>Requester = 0, ConfigDigest = 0, Epoch = ucast e,
                                             Round = r, Raw = log\<rparr>
                              | _ \<Rightarrow> Inl (ErrExternal ''not two bytes''))\<rparr>"

definition sample_globals :: "(unit, unit ConfigSet) Globals" where
  "sample_globals =
     \<lparr>OCRContractConfigSet = 1, OCRContractLatestRoundRequested = 2,
      ContractConfigFromConfigSetEvent = (\<lambda>cs. cs)\<rparr>"

definition sample_log :: "address \<Rightarrow> hash list \<Rightarrow> byte list \<Rightarrow> bool \<Rightarrow> Log_val" where
  "sample_log a ts d r = zero_Log\<lparr>Address := a, Topics := ts, Data := d, Removed := r\<rparr>"

text \<open>A node with one configuration log in block 10 and a foreign log in block 11.\<close>

definition sample_client :: "FilterQuery \<Rightarrow> error + Log_val list" where
  "sample_client q =
     (if FromBlock q = 10 \<and> ToBlock q = 10 then Inr [sample_log 7 [1] [9] False]
      else if FromBlock q = 11 \<and> ToBlock q = 11 then Inr [sample_log 8 [1] [9] False]
      else Inr [])"

definition sample_tracker :: "(unit, unit ConfigSet) OCRContractTracker" where
  "sample_tracker = NewOCRContractTracker 7 sample_filterer sample_client 1"

text \<open>The tracker with the stored round-request state \<open>(epoch = 5, round = 3)\<close>.\<close>

definition sample_tracker_5_3 :: "(unit, unit ConfigSet) OCRContractTracker" where
  "sample_tracker_5_3 =
     sample_tracker\<lparr>latestRoundRequested := zero_RoundRequested\<lparr>Epoch := 5, Round := 3\<rparr>\<rparr>"

definition sample_broadcast :: "Log_val \<Rightarrow> Broadcast" where
  "sample_broadcast log = \<lparr>RawLog = log, WasAlreadyConsumed = (False, None), MarkConsumed = None\<rparr>"

text \<open>
  A heap with one topic array and one payload array, and a log whose topics are the
  last two elements of the first and whose payload is all of the second.
\<close>

definition sample_heap :: Heap where
  "sample_heap =
     \<lparr>topic_store = \<lparr>arrays = (\<lambda>a. None)(0 := Some [11, 22, 33]), fresh = 1\<rparr>,
      data_store = \<lparr>arrays = (\<lambda>a. None)(0 := Some [1, 2, 3, 4]), fresh = 1\<rparr>\<rparr>"

definition sample_log_ref :: Log_ref where
  "sample_log_ref =
     \<lparr>Address = 7, Topics = Slice 0 1 2, Data = Slice 0 0 4, BlockNumber = 10, TxHash = 5,
      TxIndex = 0, BlockHash = 6, Index = 3, Removed = False\<rparr>"

section \<open>Properties of package eth\<close>

subsection \<open>SafeByteSlice\<close>

text \<open>
  Claim C4. For every payload and every pair of bounds, \<^verbatim>\<open>SafeByteSlice\<close> returns the
  out-of-bounds error together with an empty result when \<open>start < 0\<close>, \<open>stop < 0\<close>,
  \<open>start > stop\<close> or \<open>stop > len(payload)\<close>; in every other case it returns no error
  and exactly \<^verbatim>\<open>payload[start:stop]\<close>: \<open>stop - start\<close> elements, the \<open>i\<close>-th of
  which is element \<open>start + i\<close> of the payload.
\<close>

theorem SafeByteSlice_bounds:
  "(start < 0 \<or> stop < 0 \<or> start > stop \<or> stop > int (length ary)
      \<longrightarrow> SafeByteSlice ary start stop = ([], Some ErrOutOfBounds)) \<and>
   (\<not> (start < 0 \<or> stop < 0 \<or> start > stop \<or> stop > int (length ary))
      \<longrightarrow> (\<exists>out. SafeByteSlice ary start stop = (out, None) \<and>
                length out = nat (stop - start) \<and>
                (\<forall>i < length out. out ! i = ary ! (nat start + i))))"
  by (auto simp: SafeByteSlice_def nat_diff_distrib min_def)

theorem SafeByteSlice_bounds_witness:
  "SafeByteSlice [1, 2, 3, 4, 5] 3 9 = ([], Some ErrOutOfBounds) \<and>
   SafeByteSlice [1, 2, 3, 4, 5] 1 3 = ([2, 3], None)"
  using SafeByteSlice_bounds [of 3 9 "[1, 2, 3, 4, 5]"] SafeByteSlice_bounds [of 1 3 "[1, 2, 3, 4, 5]"]
  by (simp add: SafeByteSlice_def)

subsection \<open>Topics: GetTopic and FulfilledRunLog\<close>

text \<open>An index below \<open>2 ^ 63\<close> keeps its value under \<^verbatim>\<open>int(idx)\<close>.\<close>

lemma sint_small:
  fixes idx :: "64 word"
  assumes "unat idx < 2 ^ 63"
  shows "sint idx = int (unat idx)"
proof -
  have "int (unat idx) < int (2 ^ 63)"
    using assms by (simp only: of_nat_less_iff)
  then have lt: "uint idx < 2 ^ 63"
    by (simp only: uint_nat of_nat_power of_nat_numeral)
  have ge: "- (2 ^ 63) \<le> uint idx"
    by (rule order_trans [where y = 0]) simp_all
  have "signed_take_bit 63 (uint idx) = uint idx"
    using ge lt by (rule signed_take_bit_int_eq_self)
  then have "sint idx = uint idx"
    by (simp add: sint_uint)
  then show ?thesis
    by (simp only: uint_nat)
qed

text \<open>
  For such an index \<^verbatim>\<open>GetTopic\<close> never panics: it returns the error when the index is
  not below the number of topics, and the topic otherwise.
\<close>

lemma GetTopic_small_index:
  assumes "unat idx < 2 ^ 63"
  shows "GetTopic log idx =
     (if length (Topics log) \<le> unat idx then Inr (0, Some (ErrGetTopic idx log))
      else Inr (Topics log ! unat idx, None))"
proof -
  have "(int (length (Topics log)) \<le> sint idx) = (length (Topics log) \<le> unat idx)"
    unfolding sint_small [OF assms] by (rule of_nat_le_iff)
  then show ?thesis
    by (auto simp: GetTopic_def)
qed

text \<open>A receipt whose logs all carry a topic never makes \<^verbatim>\<open>FulfilledRunLog\<close> panic.\<close>

lemma FulfilledRunLog_total_on_topics:
  "list_all (\<lambda>log. Topics log \<noteq> []) logs \<Longrightarrow>
   FulfilledRunLog_range topic logs =
     Inr (list_ex (\<lambda>log. hd (Topics log) = topic) logs)"
  by (induction logs) (auto split: list.splits)

text \<open>
  Claim C3. The claim says that topics are never indexed without a bounds check:
  \<^verbatim>\<open>GetTopic\<close> answers an index at or beyond the number of topics with an error, and
  \<^verbatim>\<open>FulfilledRunLog\<close> is total on receipts whose logs have no topics. The code does
  neither: \<^verbatim>\<open>FulfilledRunLog\<close> on a receipt with one log without topics panics at
  \<^verbatim>\<open>log.Topics[0]\<close>, whatever the fulfilled topic is, and \<^verbatim>\<open>GetTopic\<close> on that log
  with the index \<open>2 ^ 63\<close> passes its guard (\<^verbatim>\<open>int(idx)\<close> is negative) and panics at
  \<^verbatim>\<open>log.Topics[idx]\<close>.
\<close>

theorem FulfilledRunLog_GetTopic_panic:
  "FulfilledRunLog topic \<lparr>BlockNumber = None, BlockHash = None, Hash = 0, Logs = [zero_Log]\<rparr>
     = Inl IndexOutOfRange \<and>
   GetTopic zero_Log (2 ^ 63) = Inl IndexOutOfRange"
  by (simp add: FulfilledRunLog_def zero_Log_def GetTopic_def)

subsection \<open>FunctionSelector: Value and Scan\<close>

text \<open>Run on a selector variable, the body of \<^verbatim>\<open>Scan\<close> restores a stored selector.\<close>

lemma Scan_body_Value: "Scan_body f (fst (Value x)) = (x, None)"
  by (cases f; cases x) (simp add: Scan_body_def Value_def FunctionSelectorLength_def)

text \<open>The caller's selector is the same after every call of \<^verbatim>\<open>Scan\<close>.\<close>

lemma Scan_keeps_receiver: "fst (Scan x val) = x"
  by (simp add: Scan_def)

text \<open>A stored byte value of any other length than 4 is an error.\<close>

lemma Scan_wrong_length:
  "length temp \<noteq> 4 \<Longrightarrow> snd (Scan x (VBytes temp)) = Some (ErrScanLength temp 4 (length temp))"
  by (simp add: Scan_def Scan_body_def FunctionSelectorLength_def)

text \<open>
  Claim C2. The claim says that \<^verbatim>\<open>Scan\<close> applied to the stored form of a selector
  \<open>x\<close> yields \<open>x\<close> back. In the code, a zero selector that scans the stored form of
  \<^verbatim>\<open>01 02 03 04\<close> reports no error and is still zero afterwards: \<^verbatim>\<open>Scan\<close> has a
  value receiver and fills a copy.
\<close>

theorem Scan_Value_not_restored:
  "Scan (Sel 0 0 0 0) (fst (Value (Sel 1 2 3 4))) = (Sel 0 0 0 0, None)"
  by (simp add: Scan_def Scan_body_def Value_def FunctionSelectorLength_def)

subsection \<open>FunctionSelector: constructors on short input\<close>

text \<open>
  With capacity for four bytes there is no panic, whatever the length: the selector is
  read from the backing array, beyond the slice's length if need be.
\<close>

lemma BytesToFunctionSelector_within_capacity:
  "4 \<le> cap b \<Longrightarrow>
   BytesToFunctionSelector b = Inr (copy_to_selector (Sel 0 0 0 0) (take 4 (backing b)))"
  by (simp add: BytesToFunctionSelector_def SetBytes_def reslice_def elems_def
      FunctionSelectorLength_def)

text \<open>
  Claim C9. The selector constructors are partial on short input: a byte slice of
  capacity below 4 makes \<^verbatim>\<open>BytesToFunctionSelector\<close> panic at \<^verbatim>\<open>b[:4]\<close>, hence so
  does \<^verbatim>\<open>HexToFunctionSelector\<close> on a string that \<^verbatim>\<open>common.FromHex\<close> decodes to
  such a slice; \<^verbatim>\<open>unmarshalFromString\<close> alone checks the length first and reports a
  hex string that decodes to another length than 4 as an error, leaving the selector
  as it was.
\<close>

theorem selector_constructors_panic:
  "(cap b < 4 \<longrightarrow> BytesToFunctionSelector b = Inl SliceBoundsOutOfRange) \<and>
   (cap (fromHex s) < 4 \<longrightarrow> HexToFunctionSelector fromHex s = Inl SliceBoundsOutOfRange) \<and>
   (HasHexPrefix deps s \<and> 2 \<le> length s \<and> hexRegexp_Match (drop 2 s) \<and> slen (FromHex deps s) \<noteq> 4
      \<longrightarrow> unmarshalFromString deps s f = Inr (f, Some ErrFunctionIDLength))"
  by (simp add: BytesToFunctionSelector_def HexToFunctionSelector_def SetBytes_def reslice_def
      unmarshalFromString_def FunctionSelectorLength_def)

theorem selector_constructors_panic_witness:
  "BytesToFunctionSelector \<lparr>backing = [1, 2], slen = 2\<rparr> = Inl SliceBoundsOutOfRange \<and>
   HexToFunctionSelector (\<lambda>s. \<lparr>backing = [1, 2], slen = 2\<rparr>) ''0x0102'' = Inl SliceBoundsOutOfRange \<and>
   unmarshalFromString
     \<lparr>HasHexPrefix = (\<lambda>s. take 2 s = ''0x''),
      FromHex = (\<lambda>s. \<lparr>backing = [1, 2], slen = 2\<rparr>),
      Keccak256 = (\<lambda>s. (\<lparr>backing = [], slen = 0\<rparr>, Some (ErrExternal ''unused'')))\<rparr>
     ''0x0102'' (Sel 9 9 9 9) = Inr (Sel 9 9 9 9, Some ErrFunctionIDLength)"
  using selector_constructors_panic [of "\<lparr>backing = [1, 2], slen = 2\<rparr>"
      "\<lambda>s. \<lparr>backing = [1, 2], slen = 2\<rparr>" "''0x0102''"
      "\<lparr>HasHexPrefix = (\<lambda>s. take 2 s = ''0x''),
        FromHex = (\<lambda>s. \<lparr>backing = [1, 2], slen = 2\<rparr>),
        Keccak256 = (\<lambda>s. (\<lparr>backing = [], slen = 0\<rparr>, Some (ErrExternal ''unused'')))\<rparr>"
      "Sel 9 9 9 9"]
  by (simp add: cap_def hexRegexp_Match_def)

subsection \<open>Log.Copy\<close>

text \<open>An allocated array lies below the allocator's next address.\<close>

lemma store_ok_allocated: "store_ok s \<Longrightarrow> arrays s a = Some xs \<Longrightarrow> a < fresh s"
  by (metis store_ok_def not_le_imp_less option.distinct(1))


text \<open>\<^verbatim>\<open>Copy_field\<close> on a nil slice and on a valid slice, computed.\<close>

lemma Copy_field_nil: "Copy_field z NilSlice s = (NilSlice, s)"
  by (simp add: Copy_field_def)


lemma Copy_field_slice:
  assumes "arrays s a = Some xs" and "off + n \<le> length xs" and "a < fresh s"
  shows "Copy_field z (Slice a off n) s =
           (Slice (fresh s) 0 n,
            s\<lparr>arrays := (arrays s)(fresh s := Some (take n (drop off xs))), fresh := Suc (fresh s)\<rparr>)"
  using assms by (simp add: Copy_field_def make_slice_def Let_def)


text \<open>Slices over different arrays share no storage; a nil slice shares none with any.\<close>

lemma independent_distinct_arrays:
  "a \<noteq> b \<Longrightarrow> independent s (Slice a off n) (Slice b off' n')"
  unfolding independent_def
  by (auto split: if_splits option.splits)


lemma independent_nil_left: "independent s NilSlice y"
  by (simp add: independent_def)


text \<open>
  What \<^verbatim>\<open>Copy\<close> does for one slice-typed field: the new slice has the elements of
  the old one, the old one keeps them, nil stays nil, the two share no storage, and the
  new slice lies in an array that did not exist before.
\<close>

lemma Copy_field_deep:
  assumes ok: "store_ok s" and valid: "valid_slice s x" and copy: "Copy_field z x s = (c, s')"
  shows "contents s' c = contents s x"
    and "contents s' x = contents s x"
    and "(c = NilSlice) = (x = NilSlice)"
    and "independent s' c x"
    and "\<forall>a off n. c = Slice a off n \<longrightarrow> arrays s a = None"
proof -
  have "contents s' c = contents s x \<and> contents s' x = contents s x \<and>
        (c = NilSlice) = (x = NilSlice) \<and> independent s' c x \<and>
        (\<forall>a off n. c = Slice a off n \<longrightarrow> arrays s a = None)"
  proof (cases x)
    case NilSlice
    with copy show ?thesis
      by (simp add: Copy_field_nil independent_nil_left)
  next
    case (Slice a off n)
    with valid obtain xs where xs: "arrays s a = Some xs" "off + n \<le> length xs"
      by (auto split: option.splits)
    from ok xs(1) have lt: "a < fresh s"
      by (rule store_ok_allocated)
    from ok have unused: "arrays s (fresh s) = None"
      by (simp add: store_ok_def)
    from copy Slice have c: "c = Slice (fresh s) 0 n"
      and s': "s' = s\<lparr>arrays := (arrays s)(fresh s := Some (take n (drop off xs))),
                      fresh := Suc (fresh s)\<rparr>"
      by (simp_all add: Copy_field_slice [OF xs lt])
    have len: "length (take n (drop off xs)) = n"
      using xs(2) by simp
    have "contents s' c = contents s x"
      using xs len by (simp add: c s' Slice)
    moreover have "contents s' x = contents s x"
      using xs lt by (simp add: s' Slice)
    moreover have "independent s' c x"
      unfolding c Slice using lt by (intro independent_distinct_arrays) simp
    ultimately show ?thesis
      using unused by (simp add: c Slice)
  qed
  then show "contents s' c = contents s x"
    and "contents s' x = contents s x"
    and "(c = NilSlice) = (x = NilSlice)"
    and "independent s' c x"
    and "\<forall>a off n. c = Slice a off n \<longrightarrow> arrays s a = None"
    by blast+
qed


text \<open>
  Claim C7. For every log (in a heap whose allocator is sound and in which the log's
  two slices are valid), \<^verbatim>\<open>Copy\<close> returns a log equal to the original in every
  field: the scalar fields are the same and the topics and the payload have the same
  elements, a nil slice staying nil. The original is unchanged by the copying. The
  topic sequence and the payload of the copy are independently owned: each lies in an
  array allocated by \<^verbatim>\<open>Copy\<close>, and no assignment through a slice of the copy
  changes the elements of the original's slice, nor the other way round.
\<close>

theorem Copy_deep:
  assumes "store_ok (topic_store h)" and "store_ok (data_store h)"
    and "valid_slice (topic_store h) (Topics log)" and "valid_slice (data_store h) (Data log)"
    and "Copy h log = (cpy, h')"
  shows "view h' cpy = view h log \<and> view h' log = view h log \<and>
         ((Topics cpy = NilSlice) = (Topics log = NilSlice)) \<and>
         ((Data cpy = NilSlice) = (Data log = NilSlice)) \<and>
         independent (topic_store h') (Topics cpy) (Topics log) \<and>
         independent (data_store h') (Data cpy) (Data log) \<and>
         (\<forall>a off n. Topics cpy = Slice a off n \<longrightarrow> arrays (topic_store h) a = None) \<and>
         (\<forall>a off n. Data cpy = Slice a off n \<longrightarrow> arrays (data_store h) a = None)"
proof -
  obtain ct ts where t: "Copy_field 0 (Topics log) (topic_store h) = (ct, ts)"
    by (cases "Copy_field (0::hash) (Topics log) (topic_store h)")
  obtain cd ds where d: "Copy_field 0 (Data log) (data_store h) = (cd, ds)"
    by (cases "Copy_field (0::byte) (Data log) (data_store h)")
  from assms(5) t d have cpy: "Topics cpy = ct" "Data cpy = cd"
    "Address cpy = Address log" "Log.BlockNumber cpy = Log.BlockNumber log"
    "TxHash cpy = TxHash log" "TxIndex cpy = TxIndex log" "Log.BlockHash cpy = Log.BlockHash log"
    "Index cpy = Index log" "Removed cpy = Removed log"
    and h': "topic_store h' = ts" "data_store h' = ds"
    by (auto simp: Copy_def)
  note T = Copy_field_deep [OF assms(1) assms(3) t]
  note D = Copy_field_deep [OF assms(2) assms(4) d]
  show ?thesis
    using T D by (simp add: view_def cpy h')
qed


theorem Copy_deep_witness:
  "Copy sample_heap sample_log_ref =
     (sample_log_ref\<lparr>Topics := Slice 1 0 2, Data := Slice 1 0 4\<rparr>,
      \<lparr>topic_store = \<lparr>arrays = (\<lambda>a. None)(0 := Some [11, 22, 33], 1 := Some [22, 33]), fresh = 2\<rparr>,
       data_store = \<lparr>arrays = (\<lambda>a. None)(0 := Some [1, 2, 3, 4], 1 := Some [1, 2, 3, 4]), fresh = 2\<rparr>\<rparr>) \<and>
   Topics (view (snd (Copy sample_heap sample_log_ref)) (fst (Copy sample_heap sample_log_ref))) = [22, 33] \<and>
   view (snd (Copy sample_heap sample_log_ref)) (fst (Copy sample_heap sample_log_ref))
     = view sample_heap sample_log_ref \<and>
   independent (topic_store (snd (Copy sample_heap sample_log_ref)))
     (Topics (fst (Copy sample_heap sample_log_ref))) (Topics sample_log_ref) \<and>
   independent (data_store (snd (Copy sample_heap sample_log_ref)))
     (Data (fst (Copy sample_heap sample_log_ref))) (Data sample_log_ref) \<and>
   (case set_elem (Slice 1 0 2) 0 99 (topic_store (snd (Copy sample_heap sample_log_ref))) of
      Inl p \<Rightarrow> False
    | Inr s \<Rightarrow> contents s (Slice 1 0 2) = [99, 33] \<and> contents s (Topics sample_log_ref) = [22, 33])"
proof -
  let ?h' = "\<lparr>topic_store = \<lparr>arrays = (\<lambda>a. None)(0 := Some [11, 22, 33], 1 := Some [22, 33]), fresh = 2\<rparr>,
       data_store = \<lparr>arrays = (\<lambda>a. None)(0 := Some [1, 2, 3, 4], 1 := Some [1, 2, 3, 4]), fresh = 2\<rparr>\<rparr>"
  have ok: "store_ok (topic_store sample_heap)" "store_ok (data_store sample_heap)"
    by (simp_all add: store_ok_def sample_heap_def)
  have valid: "valid_slice (topic_store sample_heap) (Topics sample_log_ref)"
    "valid_slice (data_store sample_heap) (Data sample_log_ref)"
    by (simp_all add: sample_heap_def sample_log_ref_def)
  have copy: "Copy sample_heap sample_log_ref =
      (sample_log_ref\<lparr>Topics := Slice 1 0 2, Data := Slice 1 0 4\<rparr>, ?h')"
    by (simp add: Copy_def Copy_field_def make_slice_def sample_heap_def sample_log_ref_def Let_def)
  have assign: "(case set_elem (Slice 1 0 2) 0 99 (topic_store ?h') of
      Inl p \<Rightarrow> False
    | Inr s \<Rightarrow> contents s (Slice 1 0 2) = [99, 33] \<and> contents s (Topics sample_log_ref) = [22, 33])"
    by (simp add: sample_log_ref_def)
  have topics: "Topics (view sample_heap sample_log_ref) = [22, 33]"
    by (simp add: view_def sample_heap_def sample_log_ref_def)
  show ?thesis
    using Copy_deep [OF ok valid copy] assign topics by (simp add: copy)
qed


section \<open>Properties of the contract tracker\<close>

lemmas sample_defs = sample_filterer_def sample_globals_def sample_tracker_def sample_log_def
  sample_broadcast_def sample_client_def sample_tracker_5_3_def NewOCRContractTracker_def
  NewMailbox_def zero_RoundRequested_def zero_Log_def configMailboxSanityLimit_def

lemmas HandleLog_defs = HandleLog_def HandleLog_markConsumed_def HandleLog_roundRequested_def
  logged_def called_def Let_def

subsection \<open>HandleLog and logs removed by a reorganisation\<close>

text \<open>
  Claim C1, as stated, fails: \<^verbatim>\<open>HandleLog\<close> never reads \<^verbatim>\<open>Removed\<close>. On the fresh
  sample tracker, a RoundRequested log of the tracked contract with \<^verbatim>\<open>Removed = true\<close>
  and payload \<open>(epoch 5, round 3)\<close> replaces the stored zero state, and a ConfigSet log
  with \<^verbatim>\<open>Removed = true\<close> puts its configuration into the empty mailbox.
\<close>

theorem HandleLog_removed_counterexample:
  "Removed (RawLog (sample_broadcast (sample_log 7 [2] [5, 3] True))) \<and>
   latestRoundRequested (HandleLog sample_globals (sample_broadcast (sample_log 7 [2] [5, 3] True)) None sample_tracker)
     = \<lparr>Requester = 0, ConfigDigest = 0, Epoch = 5, Round = 3, Raw = sample_log 7 [2] [5, 3] True\<rparr> \<and>
   latestRoundRequested sample_tracker = zero_RoundRequested \<and>
   Removed (RawLog (sample_broadcast (sample_log 7 [1] [9] True))) \<and>
   queue (configsMB (HandleLog sample_globals (sample_broadcast (sample_log 7 [1] [9] True)) None sample_tracker))
     = [\<lparr>Decoded = (), Raw = sample_log 7 [1] [9] True\<rparr>] \<and>
   queue (configsMB sample_tracker) = []"
  by (simp add: sample_defs HandleLog_defs Deliver_def)


text \<open>
  Claim C1, amended. \<^verbatim>\<open>HandleLog\<close> does not consult the \<^verbatim>\<open>Removed\<close> flag: a log
  with \<^verbatim>\<open>Removed = true\<close> that was not consumed before, comes from the tracked contract
  and decodes is handled as new data. If its first topic is the ConfigSet topic, the
  decoded configuration (with the log as its \<^verbatim>\<open>Raw\<close>) is delivered to the mailbox; if
  it is the RoundRequested topic and the decoded epoch and round are both at least
  the stored ones, the decoded event replaces the stored round-request state.
\<close>

theorem HandleLog_removed_log_processed:
  assumes "Removed (RawLog lb)"
    and "WasAlreadyConsumed lb = (False, None)"
    and "Topics (RawLog lb) = topic # rest"
    and "Address (RawLog lb) = contractAddress t"
  shows "(topic = OCRContractConfigSet g \<and>
          ParseConfigSet (contractFilterer t) (RawLog lb) = Inr cs
          \<longrightarrow> configsMB (HandleLog g lb None t) =
                Deliver (ContractConfigFromConfigSetEvent g (cs\<lparr>Raw := RawLog lb\<rparr>)) (configsMB t)) \<and>
         (topic \<noteq> OCRContractConfigSet g \<and> topic = OCRContractLatestRoundRequested g \<and>
          ParseRoundRequested (contractFilterer t) (RawLog lb) = Inr rr \<and>
          Round rr \<ge> Round (latestRoundRequested t) \<and> Epoch rr \<ge> Epoch (latestRoundRequested t)
          \<longrightarrow> latestRoundRequested (HandleLog g lb None t) = rr)"
  using assms by (auto simp: HandleLog_defs split: option.splits)


theorem HandleLog_removed_log_processed_witness:
  "configsMB (HandleLog sample_globals (sample_broadcast (sample_log 7 [1] [9] True)) None sample_tracker)
     = Deliver \<lparr>Decoded = (), Raw = sample_log 7 [1] [9] True\<rparr> (configsMB sample_tracker) \<and>
   latestRoundRequested
       (HandleLog sample_globals (sample_broadcast (sample_log 7 [2] [5, 3] True)) None sample_tracker)
     = \<lparr>Requester = 0, ConfigDigest = 0, Epoch = 5, Round = 3, Raw = sample_log 7 [2] [5, 3] True\<rparr>"
  using HandleLog_removed_log_processed [where lb = "sample_broadcast (sample_log 7 [1] [9] True)"
      and topic = 1 and rest = "[]" and t = sample_tracker and g = sample_globals
      and cs = "\<lparr>Decoded = (), Raw = sample_log 7 [1] [9] True\<rparr>"
      and rr = zero_RoundRequested]
    HandleLog_removed_log_processed [where lb = "sample_broadcast (sample_log 7 [2] [5, 3] True)"
      and topic = 2 and rest = "[]" and t = sample_tracker and g = sample_globals
      and cs = "\<lparr>Decoded = (), Raw = zero_Log\<rparr>"
      and rr = "\<lparr>Requester = 0, ConfigDigest = 0, Epoch = 5, Round = 3,
                 Raw = sample_log 7 [2] [5, 3] True\<rparr>"]
  by (simp add: sample_defs)


subsection \<open>HandleLog: the round-request state\<close>

text \<open>
  Claim C5. For every stored state and every RoundRequested event that
  \<^verbatim>\<open>HandleLog\<close> decodes from a log of the tracked contract, the event replaces the
  stored state if and only if both its epoch and its round are at least the stored
  ones; otherwise the stored state is unchanged and the out-of-date warning is logged
  (nothing else is logged but a failure of \<^verbatim>\<open>MarkConsumed\<close>). The witness evaluates
  the stored state \<open>(5, 3)\<close> against the candidates \<open>(5, 2)\<close>, \<open>(5, 4)\<close> and \<open>(4, 9)\<close>.
\<close>

theorem HandleLog_round_state_monotonic:
  assumes "WasAlreadyConsumed lb = (False, None)"
    and "Topics (RawLog lb) = topic # rest"
    and "topic \<noteq> OCRContractConfigSet g"
    and "topic = OCRContractLatestRoundRequested g"
    and "Address (RawLog lb) = contractAddress t"
    and "ParseRoundRequested (contractFilterer t) (RawLog lb) = Inr rr"
  shows "latestRoundRequested (HandleLog g lb None t) =
           (if Epoch rr \<ge> Epoch (latestRoundRequested t) \<and> Round rr \<ge> Round (latestRoundRequested t)
            then rr else latestRoundRequested t) \<and>
         logger (HandleLog g lb None t) =
           logger t @
           (if Epoch rr \<ge> Epoch (latestRoundRequested t) \<and> Round rr \<ge> Round (latestRoundRequested t)
            then [] else [Warn_out_of_date (latestRoundRequested t) rr]) @
           (case MarkConsumed lb of Some e \<Rightarrow> [Errorw_mark_consumed e] | None \<Rightarrow> [])"
  using assms by (auto simp: HandleLog_defs split: option.splits)


theorem HandleLog_round_state_monotonic_witness:
  "latestRoundRequested
       (HandleLog sample_globals (sample_broadcast (sample_log 7 [2] [5, 2] False)) None sample_tracker_5_3)
     = latestRoundRequested sample_tracker_5_3 \<and>
   latestRoundRequested
       (HandleLog sample_globals (sample_broadcast (sample_log 7 [2] [5, 4] False)) None sample_tracker_5_3)
     = \<lparr>Requester = 0, ConfigDigest = 0, Epoch = 5, Round = 4, Raw = sample_log 7 [2] [5, 4] False\<rparr> \<and>
   latestRoundRequested
       (HandleLog sample_globals (sample_broadcast (sample_log 7 [2] [4, 9] False)) None sample_tracker_5_3)
     = latestRoundRequested sample_tracker_5_3 \<and>
   Epoch (latestRoundRequested sample_tracker_5_3) = 5 \<and>
   Round (latestRoundRequested sample_tracker_5_3) = 3"
proof -
  let ?g = sample_globals and ?t = sample_tracker_5_3
  have stored: "Epoch (latestRoundRequested ?t) = 5" "Round (latestRoundRequested ?t) = 3"
    by (simp_all add: sample_tracker_5_3_def zero_RoundRequested_def)
  have reach: "WasAlreadyConsumed (sample_broadcast (sample_log 7 [2] d False)) = (False, None)"
    "Topics (RawLog (sample_broadcast (sample_log 7 [2] d False))) = 2 # []"
    "2 \<noteq> OCRContractConfigSet ?g" "2 = OCRContractLatestRoundRequested ?g"
    "Address (RawLog (sample_broadcast (sample_log 7 [2] d False))) = contractAddress ?t" for d
    by (simp_all add: sample_defs)
  have parse: "ParseRoundRequested (contractFilterer ?t) (RawLog (sample_broadcast (sample_log 7 [2] [e, r] False)))
      = Inr \<lparr>Requester = 0, ConfigDigest = 0, Epoch = ucast e, Round = r,
              Raw = sample_log 7 [2] [e, r] False\<rparr>" for e r
    by (simp add: sample_defs)
  have "latestRoundRequested (HandleLog ?g (sample_broadcast (sample_log 7 [2] [5, 2] False)) None ?t)
          = latestRoundRequested ?t"
    using HandleLog_round_state_monotonic [OF reach parse [of 5 2]] by (simp add: stored)
  moreover have "latestRoundRequested (HandleLog ?g (sample_broadcast (sample_log 7 [2] [5, 4] False)) None ?t)
          = \<lparr>Requester = 0, ConfigDigest = 0, Epoch = 5, Round = 4, Raw = sample_log 7 [2] [5, 4] False\<rparr>"
    using HandleLog_round_state_monotonic [OF reach parse [of 5 4]] by (simp add: stored)
  moreover have "latestRoundRequested (HandleLog ?g (sample_broadcast (sample_log 7 [2] [4, 9] False)) None ?t)
          = latestRoundRequested ?t"
    using HandleLog_round_state_monotonic [OF reach parse [of 4 9]] by (simp add: stored)
  ultimately show ?thesis
    using stored by simp
qed


subsection \<open>HandleLog: logs already consumed\<close>

text \<open>
  Claim C6. For every broadcast that reports its log as already consumed,
  \<^verbatim>\<open>HandleLog\<close> changes neither the round-request state nor the mailbox and calls
  neither decoder nor \<^verbatim>\<open>MarkConsumed\<close>: with no earlier error its only effect is the
  query \<^verbatim>\<open>WasAlreadyConsumed\<close> itself. The witness runs \<^verbatim>\<open>HandleLog\<close> twice on one
  ConfigSet log, the second time with the broadcast reporting it consumed.
\<close>

theorem HandleLog_already_consumed:
  assumes "WasAlreadyConsumed lb = (True, None)"
  shows "latestRoundRequested (HandleLog g lb err t) = latestRoundRequested t \<and>
         configsMB (HandleLog g lb err t) = configsMB t \<and>
         calls (HandleLog g lb err t) = calls t @ (if err = None then [WasAlreadyConsumed_call] else []) \<and>
         HandleLog g lb None t = t\<lparr>calls := calls t @ [WasAlreadyConsumed_call]\<rparr>"
  using assms by (auto simp: HandleLog_defs split: option.splits)


theorem HandleLog_already_consumed_witness:
  "HandleLog sample_globals
       ((sample_broadcast (sample_log 7 [1] [9] False))\<lparr>WasAlreadyConsumed := (True, None)\<rparr>) None
       (HandleLog sample_globals (sample_broadcast (sample_log 7 [1] [9] False)) None sample_tracker)
     = (HandleLog sample_globals (sample_broadcast (sample_log 7 [1] [9] False)) None sample_tracker)
         \<lparr>calls := [WasAlreadyConsumed_call, ParseConfigSet_call (sample_log 7 [1] [9] False),
                    MarkConsumed_call, WasAlreadyConsumed_call]\<rparr> \<and>
   queue (configsMB (HandleLog sample_globals (sample_broadcast (sample_log 7 [1] [9] False)) None sample_tracker))
     = [\<lparr>Decoded = (), Raw = sample_log 7 [1] [9] False\<rparr>]"
proof -
  let ?lb = "sample_broadcast (sample_log 7 [1] [9] False)"
  let ?t1 = "HandleLog sample_globals ?lb None sample_tracker"
  have first: "calls ?t1 = [WasAlreadyConsumed_call, ParseConfigSet_call (sample_log 7 [1] [9] False),
                            MarkConsumed_call]"
    "queue (configsMB ?t1) = [\<lparr>Decoded = (), Raw = sample_log 7 [1] [9] False\<rparr>]"
    by (simp_all add: sample_defs HandleLog_defs Deliver_def)
  have again: "WasAlreadyConsumed (?lb\<lparr>WasAlreadyConsumed := (True, None)\<rparr>) = (True, None)"
    by simp
  show ?thesis
    using HandleLog_already_consumed [OF again, of sample_globals None ?t1] first by simp
qed


subsection \<open>HandleLog: which ignored logs are marked consumed\<close>

text \<open>
  Claim C10. Marking as consumed is asymmetric across the logs \<^verbatim>\<open>HandleLog\<close> ignores.
  After an earlier listener's error it calls nothing; on a log without topics it only
  asks \<^verbatim>\<open>WasAlreadyConsumed\<close>; on a log of the tracked contract whose payload does not
  decode it asks and calls the decoder; in none of these cases does it call
  \<^verbatim>\<open>MarkConsumed\<close>. On a log whose first topic is neither event topic it leaves the
  round-request state and the mailbox alone and does call \<^verbatim>\<open>MarkConsumed\<close>.
\<close>

theorem HandleLog_consume_marking:
  "(calls (HandleLog g lb (Some e) t) = calls t) \<and>
   (WasAlreadyConsumed lb = (False, None) \<and> Topics (RawLog lb) = []
      \<longrightarrow> calls (HandleLog g lb None t) = calls t @ [WasAlreadyConsumed_call]) \<and>
   (WasAlreadyConsumed lb = (False, None) \<and> Topics (RawLog lb) = topic # rest \<and>
    Address (RawLog lb) = contractAddress t \<and> topic = OCRContractConfigSet g \<and>
    ParseConfigSet (contractFilterer t) (RawLog lb) = Inl e'
      \<longrightarrow> calls (HandleLog g lb None t) =
            calls t @ [WasAlreadyConsumed_call, ParseConfigSet_call (RawLog lb)]) \<and>
   (WasAlreadyConsumed lb = (False, None) \<and> Topics (RawLog lb) = topic # rest \<and>
    Address (RawLog lb) = contractAddress t \<and> topic \<noteq> OCRContractConfigSet g \<and>
    topic = OCRContractLatestRoundRequested g \<and>
    ParseRoundRequested (contractFilterer t) (RawLog lb) = Inl e'
      \<longrightarrow> calls (HandleLog g lb None t) =
            calls t @ [WasAlreadyConsumed_call, ParseRoundRequested_call (RawLog lb)]) \<and>
   (WasAlreadyConsumed lb = (False, None) \<and> Topics (RawLog lb) = topic # rest \<and>
    topic \<noteq> OCRContractConfigSet g \<and> topic \<noteq> OCRContractLatestRoundRequested g
      \<longrightarrow> calls (HandleLog g lb None t) = calls t @ [WasAlreadyConsumed_call, MarkConsumed_call] \<and>
          latestRoundRequested (HandleLog g lb None t) = latestRoundRequested t \<and>
          configsMB (HandleLog g lb None t) = configsMB t)"
  by (auto simp: HandleLog_defs split: option.splits)


theorem HandleLog_consume_marking_witness:
  "calls (HandleLog sample_globals (sample_broadcast (sample_log 7 [3] [] False))
            (Some (ErrExternal ''earlier listener'')) sample_tracker) = [] \<and>
   calls (HandleLog sample_globals (sample_broadcast (sample_log 7 [] [] False)) None sample_tracker)
     = [WasAlreadyConsumed_call] \<and>
   calls (HandleLog sample_globals (sample_broadcast (sample_log 7 [1] [] False)) None sample_tracker)
     = [WasAlreadyConsumed_call, ParseConfigSet_call (sample_log 7 [1] [] False)] \<and>
   calls (HandleLog sample_globals (sample_broadcast (sample_log 7 [2] [] False)) None sample_tracker)
     = [WasAlreadyConsumed_call, ParseRoundRequested_call (sample_log 7 [2] [] False)] \<and>
   calls (HandleLog sample_globals (sample_broadcast (sample_log 7 [3] [] False)) None sample_tracker)
     = [WasAlreadyConsumed_call, MarkConsumed_call]"
proof -
  let ?g = sample_globals and ?t = sample_tracker
  have none: "calls ?t = []"
    by (simp add: sample_defs)
  note marking = HandleLog_consume_marking [where g = ?g and t = ?t and rest = "[]"
      and e = "ErrExternal ''earlier listener''"]
  have "calls (HandleLog ?g (sample_broadcast (sample_log 7 [3] [] False))
            (Some (ErrExternal ''earlier listener'')) ?t) = []"
    using marking [where lb = "sample_broadcast (sample_log 7 [3] [] False)"] none by simp
  moreover have "calls (HandleLog ?g (sample_broadcast (sample_log 7 [] [] False)) None ?t)
      = [WasAlreadyConsumed_call]"
    using marking [where lb = "sample_broadcast (sample_log 7 [] [] False)"] none
    by (simp add: sample_broadcast_def sample_log_def)
  moreover have "calls (HandleLog ?g (sample_broadcast (sample_log 7 [1] [] False)) None ?t)
      = [WasAlreadyConsumed_call, ParseConfigSet_call (sample_log 7 [1] [] False)]"
    using marking [where lb = "sample_broadcast (sample_log 7 [1] [] False)" and topic = 1
        and e' = "ErrExternal ''no data''"] none
    by (simp add: sample_defs)
  moreover have "calls (HandleLog ?g (sample_broadcast (sample_log 7 [2] [] False)) None ?t)
      = [WasAlreadyConsumed_call, ParseRoundRequested_call (sample_log 7 [2] [] False)]"
    using marking [where lb = "sample_broadcast (sample_log 7 [2] [] False)" and topic = 2
        and e' = "ErrExternal ''not two bytes''"] none
    by (simp add: sample_defs)
  moreover have "calls (HandleLog ?g (sample_broadcast (sample_log 7 [3] [] False)) None ?t)
      = [WasAlreadyConsumed_call, MarkConsumed_call]"
    using marking [where lb = "sample_broadcast (sample_log 7 [3] [] False)" and topic = 3] none
    by (simp add: sample_defs)
  ultimately show ?thesis
    by simp
qed


subsection \<open>ConfigFromLogs\<close>

text \<open>
  Claim C8, as stated, fails for block numbers from \<open>2 ^ 63\<close> on: the conversion
  \<^verbatim>\<open>int64(changedInBlock)\<close> makes the queried block negative. For the block
  \<open>2 ^ 63\<close> the sample tracker asks for the range from \<open>- 2 ^ 63\<close> to \<open>- 2 ^ 63\<close>.
\<close>

theorem ConfigFromLogs_block_counterexample:
  "unat (2 ^ 63 :: 64 word) = 2 ^ 63 \<and>
   calls (fst (ConfigFromLogs sample_globals sample_tracker (2 ^ 63))) =
     [FilterLogs_call \<lparr>FromBlock = - (2 ^ 63), ToBlock = - (2 ^ 63), Addresses = [7],
                        FilterQuery.Topics = [[1]]\<rparr>]"
  by (simp add: ConfigFromLogs_def sample_defs called_def Let_def)


text \<open>
  Claim C8, amended. For every block number below \<open>2 ^ 63\<close>, \<^verbatim>\<open>ConfigFromLogs\<close>
  issues exactly one filter query, whose from-block and to-block are both that block
  number, restricted to the tracked contract's address and the ConfigSet topic. An
  empty result yields the "no logs" error and nothing is decoded. When there are
  results, the last log is the one decoded; if it decodes, the result is an address
  mismatch error when its address differs from the tracked contract's, and the
  projected configuration (with that log as its \<^verbatim>\<open>Raw\<close>) otherwise.
\<close>

theorem ConfigFromLogs_exact_block:
  assumes "unat changedInBlock < 2 ^ 63"
    and "q = \<lparr>FromBlock = int (unat changedInBlock), ToBlock = int (unat changedInBlock),
              Addresses = [contractAddress t], FilterQuery.Topics = [[OCRContractConfigSet g]]\<rparr>"
  shows "(\<exists>rest. calls (fst (ConfigFromLogs g t changedInBlock)) = calls t @ FilterLogs_call q # rest \<and>
                 (\<forall>q'. FilterLogs_call q' \<notin> set rest)) \<and>
         (ethClient t q = Inr [] \<longrightarrow>
            ConfigFromLogs g t changedInBlock =
              (called (FilterLogs_call q) t, Inl (ErrNoLogs (contractAddress t)))) \<and>
         (ethClient t q = Inr logs \<and> logs \<noteq> [] \<longrightarrow>
            calls (fst (ConfigFromLogs g t changedInBlock)) =
              calls t @ [FilterLogs_call q, ParseConfigSet_call (last logs)]) \<and>
         (ethClient t q = Inr logs \<and> logs \<noteq> [] \<and>
          ParseConfigSet (contractFilterer t) (last logs) = Inr latest \<longrightarrow>
            snd (ConfigFromLogs g t changedInBlock) =
              (if Address (last logs) = contractAddress t
               then Inr (ContractConfigFromConfigSetEvent g (latest\<lparr>Raw := last logs\<rparr>))
               else Inl (ErrAddressMismatch (Address (last logs)) (contractAddress t))))"
proof -
  have q: "\<lparr>FromBlock = sint changedInBlock, ToBlock = sint changedInBlock,
            Addresses = [contractAddress t], FilterQuery.Topics = [[OCRContractConfigSet g]]\<rparr> = q"
    unfolding assms(2) sint_small [OF assms(1)] ..
  show ?thesis
    unfolding ConfigFromLogs_def q
    by (auto simp: Let_def called_def split: sum.splits)
qed


theorem ConfigFromLogs_exact_block_witness:
  "ConfigFromLogs sample_globals sample_tracker 10 =
     (sample_tracker\<lparr>calls :=
        [FilterLogs_call \<lparr>FromBlock = 10, ToBlock = 10, Addresses = [7], FilterQuery.Topics = [[1]]\<rparr>,
         ParseConfigSet_call (sample_log 7 [1] [9] False)]\<rparr>,
      Inr \<lparr>Decoded = (), Raw = sample_log 7 [1] [9] False\<rparr>) \<and>
   snd (ConfigFromLogs sample_globals sample_tracker 11) = Inl (ErrAddressMismatch 8 7) \<and>
   snd (ConfigFromLogs sample_globals sample_tracker 12) = Inl (ErrNoLogs 7)"
proof -
  let ?g = sample_globals and ?t = sample_tracker
  let ?q = "\<lambda>b. \<lparr>FromBlock = b, ToBlock = b, Addresses = [7], FilterQuery.Topics = [[1]]\<rparr>"
  have q: "?q (int n) = \<lparr>FromBlock = int n, ToBlock = int n, Addresses = [contractAddress ?t],
      FilterQuery.Topics = [[OCRContractConfigSet ?g]]\<rparr>" for n
    by (simp add: sample_defs)
  have small: "unat (10 :: 64 word) < 2 ^ 63" "unat (11 :: 64 word) < 2 ^ 63"
    "unat (12 :: 64 word) < 2 ^ 63"
    by simp_all
  have b10: "int (unat (10 :: 64 word)) = 10" and b11: "int (unat (11 :: 64 word)) = 11"
    and b12: "int (unat (12 :: 64 word)) = 12"
    by simp_all
  have found: "ethClient ?t (?q 10) = Inr [sample_log 7 [1] [9] False]"
    "ethClient ?t (?q 11) = Inr [sample_log 8 [1] [9] False]"
    "ethClient ?t (?q 12) = Inr []"
    by (simp_all add: sample_defs)
  have parse: "ParseConfigSet (contractFilterer ?t) (sample_log a [1] [9] False)
      = Inr \<lparr>Decoded = (), Raw = sample_log a [1] [9] False\<rparr>" for a
    by (simp add: sample_defs)
  have addr: "contractAddress ?t = 7" "Address (sample_log a ts d r) = a" for a ts d r
    by (simp_all add: sample_defs)
  have proj: "ContractConfigFromConfigSetEvent ?g cs = cs" for cs
    by (simp add: sample_globals_def)
  have "snd (ConfigFromLogs ?g ?t 10) = Inr \<lparr>Decoded = (), Raw = sample_log 7 [1] [9] False\<rparr> \<and>
        calls (fst (ConfigFromLogs ?g ?t 10)) =
          [FilterLogs_call (?q 10), ParseConfigSet_call (sample_log 7 [1] [9] False)]"
    using ConfigFromLogs_exact_block [OF small(1) q [of "unat (10 :: 64 word)"],
        where logs = "[sample_log 7 [1] [9] False]"
          and latest = "\<lparr>Decoded = (), Raw = sample_log 7 [1] [9] False\<rparr>"]
    by (simp add: b10 found parse addr proj) (simp add: sample_defs)
  moreover have "snd (ConfigFromLogs ?g ?t 11) = Inl (ErrAddressMismatch 8 7)"
    using ConfigFromLogs_exact_block [OF small(2) q [of "unat (11 :: 64 word)"],
        where logs = "[sample_log 8 [1] [9] False]"
          and latest = "\<lparr>Decoded = (), Raw = sample_log 8 [1] [9] False\<rparr>"]
    by (simp add: b11 found parse addr proj)
  moreover have "snd (ConfigFromLogs ?g ?t 12) = Inl (ErrNoLogs 7)"
    using ConfigFromLogs_exact_block [OF small(3) q [of "unat (12 :: 64 word)"]]
    by (simp add: b12 found addr)
  moreover have "fst (ConfigFromLogs ?g ?t 10) = ?t\<lparr>calls := calls (fst (ConfigFromLogs ?g ?t 10))\<rparr>"
    by (simp add: ConfigFromLogs_def sample_defs called_def Let_def)
  ultimately show ?thesis
    by (simp add: prod_eq_iff)
qed

end
